theory Spec2Isabelle
  imports Main "HOL-Library.Log_Nat"
begin

section \<open>JavaScript numbers\<close>

text \<open>
  The balance arithmetic of \<^verbatim>\<open>server.js\<close> is the arithmetic of JavaScript numbers:
  \<^verbatim>\<open>parseFloat\<close> yields an IEEE-754 double, and \<^verbatim>\<open>+\<close> and \<^verbatim>\<open>-\<close> round the exact
  result to the nearest double, ties to even. A finite double is held as the rational
  number it denotes; the sign of zero is not kept.
\<close>

datatype double = Finite rat | PosInfinity | NegInfinity | NaN

definition pow2 :: "int \<Rightarrow> rat" where
  "pow2 e = (if 0 \<le> e then 2 ^ nat e else 1 / 2 ^ nat (- e))"

text \<open>For \<open>q > 0\<close>, the exponent \<open>e\<close> with \<open>2\<^sup>e \<le> q < 2\<^sup>e\<^sup>+\<^sup>1\<close>.\<close>

definition floor_log2 :: "rat \<Rightarrow> int" where
  "floor_log2 q =
     (case quotient_of q of
        (n, d) \<Rightarrow> (let e = bitlen n - bitlen d in if pow2 e \<le> q then e else e - 1))"

definition round_half_even :: "rat \<Rightarrow> int" where
  "round_half_even x =
     (let f = \<lfloor>x\<rfloor>; r = x - of_int f
      in if r < 1 / 2 then f else if 1 / 2 < r then f + 1 else if even f then f else f + 1)"

text \<open>
  Rounding to binary64: 53 significant bits, the last place never below \<open>2\<^sup>-\<^sup>1\<^sup>0\<^sup>7\<^sup>4\<close>, and
  a result of magnitude \<open>2\<^sup>1\<^sup>0\<^sup>2\<^sup>4\<close> or more is an infinity.
\<close>

definition round_double :: "rat \<Rightarrow> double" where
  "round_double q =
     (if q = 0 then Finite 0
      else (let e = floor_log2 \<bar>q\<bar>;
                p = max (e - 52) (- 1074);
                r = of_int (round_half_even (q / pow2 p)) * pow2 p
            in if 2 ^ 1024 \<le> \<bar>r\<bar> then (if 0 < q then PosInfinity else NegInfinity)
               else Finite r))"

instantiation double :: "{zero, plus, uminus, minus}"
begin

definition zero_double :: double where
  "zero_double = Finite 0"

fun uminus_double :: "double \<Rightarrow> double" where
  "uminus_double (Finite x) = Finite (- x)"
| "uminus_double PosInfinity = NegInfinity"
| "uminus_double NegInfinity = PosInfinity"
| "uminus_double NaN = NaN"

fun plus_double :: "double \<Rightarrow> double \<Rightarrow> double" where
  "plus_double (Finite x) (Finite y) = round_double (x + y)"
| "plus_double NaN y = NaN"
| "plus_double x NaN = NaN"
| "plus_double PosInfinity NegInfinity = NaN"
| "plus_double NegInfinity PosInfinity = NaN"
| "plus_double PosInfinity y = PosInfinity"
| "plus_double NegInfinity y = NegInfinity"
| "plus_double x PosInfinity = PosInfinity"
| "plus_double x NegInfinity = NegInfinity"

definition minus_double :: "double \<Rightarrow> double \<Rightarrow> double" where
  "minus_double x y = x + (- y)"

instance ..

end

section \<open>The store\<close>

text \<open>
  \<^verbatim>\<open>server.js\<close> keeps all of its state in three tables of a MySQL database and reaches
  them through \<^verbatim>\<open>query(sql, params)\<close>. A table is a list of rows, in insertion order.
  The handlers are written for any number type \<open>'n\<close> with the operations the source
  applies to a balance (\<open>0\<close>, \<open>+\<close>, \<open>-\<close>); the runs below are at the type \<open>double\<close>.
  The comparisons of the SQL statements are equality of strings and of ids.

  The promise of \<^verbatim>\<open>query\<close> rejects when the store refuses a statement or cannot be
  reached. The handlers \<open>login\<close> and \<open>deleteUser\<close>, whose failures are studied below,
  take these rejections as the parameter \<open>rejects\<close>: \<open>rejects k\<close> says that the \<open>k\<close>-th
  statement the handler sends, counted from 0, is rejected. The other handlers are
  modelled on a store that rejects a statement only where the rows themselves make it so.
\<close>

record user =
  u_id :: nat
  u_username :: string
  u_password :: string

record session =
  s_user_id :: nat
  s_otp :: string
  s_login_timestamp :: int

record 'n account =
  a_user_id :: nat
  a_balance :: 'n

record 'n db =
  users :: "user list"
  sessions :: "session list"
  accounts :: "'n account list"
  next_id :: nat

datatype 'n body = Message string | Otp string | Balance 'n

type_synonym 'n response = "nat \<times> 'n body"

subsection \<open>The statements sent through \<^verbatim>\<open>query\<close>\<close>

text \<open>\<^verbatim>\<open>const [user] = await query(...)\<close>: the first row, or \<^verbatim>\<open>undefined\<close>.\<close>

fun first_row :: "'a list \<Rightarrow> 'a option" where
  "first_row [] = None"
| "first_row (r # rs) = Some r"

text \<open>\<^verbatim>\<open>SELECT * FROM users WHERE username = ?\<close>\<close>

definition select_user :: "'n db \<Rightarrow> string \<Rightarrow> user list" where
  "select_user d username = filter (\<lambda>u. u_username u = username) (users d)"

text \<open>
  Modelled from the spec: the schema is not in the source. \<^verbatim>\<open>users(id, username unique,
  password_hash)\<close> gives every new row a fresh \<open>id\<close> and rejects a second row with the same
  username, which \<^verbatim>\<open>query\<close> reports by throwing (the result \<open>None\<close>).
  \<^verbatim>\<open>INSERT INTO users (username, password) VALUES ( ?, ? )\<close>
\<close>

definition insert_user :: "'n db \<Rightarrow> string \<Rightarrow> string \<Rightarrow> 'n db option" where
  "insert_user d username encryptedPassword =
     (if select_user d username \<noteq> [] then None
      else Some (d\<lparr>users := users d @
                     [\<lparr>u_id = next_id d, u_username = username, u_password = encryptedPassword\<rparr>],
                   next_id := Suc (next_id d)\<rparr>))"

text \<open>\<^verbatim>\<open>INSERT INTO accounts (user_id, balance) VALUES ( ?, ? )\<close>\<close>

definition insert_account :: "'n db \<Rightarrow> nat \<Rightarrow> 'n \<Rightarrow> 'n db" where
  "insert_account d uid b = d\<lparr>accounts := accounts d @ [\<lparr>a_user_id = uid, a_balance = b\<rparr>]\<rparr>"

text \<open>\<^verbatim>\<open>SELECT * FROM sessions WHERE user_id = ?\<close>\<close>

definition select_sessions_of :: "'n db \<Rightarrow> nat \<Rightarrow> session list" where
  "select_sessions_of d uid = filter (\<lambda>s. s_user_id s = uid) (sessions d)"

text \<open>\<^verbatim>\<open>DELETE FROM sessions WHERE user_id = ?\<close>\<close>

definition delete_sessions_of :: "'n db \<Rightarrow> nat \<Rightarrow> 'n db" where
  "delete_sessions_of d uid = d\<lparr>sessions := filter (\<lambda>s. s_user_id s \<noteq> uid) (sessions d)\<rparr>"

text \<open>
  Modelled from the spec: the schema is not in the source. The statement names no
  timestamp; the column \<^verbatim>\<open>login_timestamp\<close> that \<^verbatim>\<open>clearSessions\<close> reads is filled by the
  schema with the time of the insert (\<open>now\<close>), the spec's \<^verbatim>\<open>created_at\<close>.
  \<^verbatim>\<open>INSERT INTO sessions ( user_id, otp ) VALUES ( ?, ? )\<close>
\<close>

definition insert_session :: "'n db \<Rightarrow> int \<Rightarrow> nat \<Rightarrow> string \<Rightarrow> 'n db" where
  "insert_session d now uid otp =
     d\<lparr>sessions := sessions d @ [\<lparr>s_user_id = uid, s_otp = otp, s_login_timestamp = now\<rparr>]\<rparr>"

text \<open>\<^verbatim>\<open>SELECT * FROM sessions WHERE user_id = ? AND otp = ?\<close>\<close>

definition select_sessions :: "'n db \<Rightarrow> nat \<Rightarrow> string \<Rightarrow> session list" where
  "select_sessions d uid otp = filter (\<lambda>s. s_user_id s = uid \<and> s_otp s = otp) (sessions d)"

text \<open>\<^verbatim>\<open>DELETE FROM sessions WHERE user_id = ? AND otp = ?\<close>\<close>

definition delete_session :: "'n db \<Rightarrow> nat \<Rightarrow> string \<Rightarrow> 'n db" where
  "delete_session d uid otp =
     d\<lparr>sessions := filter (\<lambda>s. \<not> (s_user_id s = uid \<and> s_otp s = otp)) (sessions d)\<rparr>"

text \<open>\<^verbatim>\<open>DELETE FROM sessions WHERE login_timestamp < ?\<close>\<close>

definition delete_sessions_before :: "'n db \<Rightarrow> int \<Rightarrow> 'n db" where
  "delete_sessions_before d cutOff =
     d\<lparr>sessions := filter (\<lambda>s. \<not> s_login_timestamp s < cutOff) (sessions d)\<rparr>"

text \<open>\<^verbatim>\<open>UPDATE users SET password = ? WHERE id = ?\<close>\<close>

definition update_password :: "'n db \<Rightarrow> string \<Rightarrow> nat \<Rightarrow> 'n db" where
  "update_password d encryptedPassword uid =
     d\<lparr>users := map (\<lambda>u. if u_id u = uid then u\<lparr>u_password := encryptedPassword\<rparr> else u)
                    (users d)\<rparr>"

text \<open>
  \<^verbatim>\<open>DELETE FROM users WHERE username = ?\<close>

  The statement removes rows of the user table and of no other table: deleting the
  session and account rows of a user is left to the caller. A store that refuses the
  statement, for instance while rows of another table refer to the user, shows as a
  rejection (\<open>rejects\<close> in \<open>deleteUser\<close>).
\<close>

definition delete_user :: "'n db \<Rightarrow> string \<Rightarrow> 'n db" where
  "delete_user d username = d\<lparr>users := filter (\<lambda>u. u_username u \<noteq> username) (users d)\<rparr>"

text \<open>\<^verbatim>\<open>SELECT balance FROM accounts WHERE user_id = ?\<close>\<close>

definition select_balance :: "'n db \<Rightarrow> nat \<Rightarrow> 'n list" where
  "select_balance d uid = map a_balance (filter (\<lambda>a. a_user_id a = uid) (accounts d))"

text \<open>
  Modelled from the spec: the type of the column \<^verbatim>\<open>balance\<close> is not in the source; the
  row holds the number that was written.
  \<^verbatim>\<open>UPDATE accounts SET balance = ? WHERE user_id = ?\<close>
\<close>

definition update_balance :: "'n db \<Rightarrow> 'n \<Rightarrow> nat \<Rightarrow> 'n db" where
  "update_balance d newBalance uid =
     d\<lparr>accounts := map (\<lambda>a. if a_user_id a = uid then a\<lparr>a_balance := newBalance\<rparr> else a)
                       (accounts d)\<rparr>"

section \<open>Helper functions\<close>

text \<open>
  \<^verbatim>\<open>bcrypt.hash\<close> and \<^verbatim>\<open>bcrypt.compare\<close> belong to a library: the handlers take them as the
  parameters \<open>encryptPassword\<close> and \<open>compare\<close>. \<^verbatim>\<open>generateOtp\<close> draws from
  \<^verbatim>\<open>Math.random\<close>: the code it returns is the parameter \<open>otp\<close> of \<open>login\<close>. The clock read by
  \<^verbatim>\<open>new Date()\<close> is the parameter \<open>now\<close>, in milliseconds.

  \<^verbatim>\<open>bcrypt.compare\<close> compares strings: its promise rejects when the password is not one.
  In \<open>login\<close> and \<open>deleteUser\<close> the password of the request body is a \<open>string option\<close>,
  \<open>None\<close> for a password that is absent, null or not a string, and \<open>compare\<close> is asked
  about strings only.
\<close>

definition clearSessions :: "int \<Rightarrow> 'n db \<Rightarrow> 'n db" where
  "clearSessions now d =
     (let tenMinutes = 10 * 60 * 1000;
          cutOff = now - tenMinutes
      in delete_sessions_before d cutOff)"

text \<open>
  \<^verbatim>\<open>!validSession\<close> in the handler of \<^verbatim>\<open>/me/account\<close>: \<^verbatim>\<open>query\<close> returns the array of rows,
  and the negation of an array is \<^verbatim>\<open>false\<close> in JavaScript, also when the array is empty.
\<close>

definition js_not_array :: "'a list \<Rightarrow> bool" where
  "js_not_array rows = False"

section \<open>Endpoints\<close>

text \<open>\<^verbatim>\<open>POST /users\<close>\<close>

definition register ::
  "(string \<Rightarrow> string) \<Rightarrow> ('n::zero) db \<Rightarrow> string \<Rightarrow> string \<Rightarrow> 'n response \<times> 'n db" where
  "register encryptPassword d username password =
     (let encryptedPassword = encryptPassword password
      in case insert_user d username encryptedPassword of
           None \<Rightarrow> ((500, Message ''Failed to create user''), d)
         | Some d1 \<Rightarrow>
             (case first_row (select_user d1 username) of
                None \<Rightarrow> ((500, Message ''Failed to create user''), d1)
              | Some user \<Rightarrow> ((201, Message ''User created''), insert_account d1 (u_id user) 0)))"

text \<open>
  \<^verbatim>\<open>POST /login\<close>. The whole handler is one \<^verbatim>\<open>try\<close>: a rejected statement and a rejecting
  \<^verbatim>\<open>bcrypt.compare\<close> reach the \<^verbatim>\<open>catch\<close>, which answers 500; what the statements before
  have written stays written.
\<close>

definition login ::
  "(string \<Rightarrow> string \<Rightarrow> bool) \<Rightarrow> (nat \<Rightarrow> bool) \<Rightarrow> 'n db \<Rightarrow> int \<Rightarrow> string \<Rightarrow> string
     \<Rightarrow> string option \<Rightarrow> 'n response \<times> 'n db" where
  "login compare rejects d now otp username password =
     (if rejects 0 then ((500, Message ''An error occurred during login.''), d)
      else case first_row (select_user d username) of
        None \<Rightarrow> ((401, Message ''Login failed.''), d)
      | Some user \<Rightarrow>
          (case password of
             None \<Rightarrow> ((500, Message ''An error occurred during login.''), d)
           | Some pw \<Rightarrow>
               if compare pw (u_password user) then
                 (if rejects 1 then ((500, Message ''An error occurred during login.''), d)
                  else case first_row (select_sessions_of d (u_id user)) of
                    None \<Rightarrow>
                      if rejects 2 then ((500, Message ''An error occurred during login.''), d)
                      else ((200, Otp otp), insert_session d now (u_id user) otp)
                  | Some existingSession \<Rightarrow>
                      if rejects 2 then ((500, Message ''An error occurred during login.''), d)
                      else (let d1 = delete_sessions_of d (u_id user)
                            in if rejects 3
                               then ((500, Message ''An error occurred during login.''), d1)
                               else ((200, Otp otp), insert_session d1 now (u_id user) otp)))
               else ((401, Message ''Login failed.''), d)))"

text \<open>\<^verbatim>\<open>PUT /update-password\<close>\<close>

definition updatePassword ::
  "(string \<Rightarrow> string) \<Rightarrow> (string \<Rightarrow> string \<Rightarrow> bool) \<Rightarrow> 'n db \<Rightarrow> string \<Rightarrow> string \<Rightarrow> string
     \<Rightarrow> 'n response \<times> 'n db" where
  "updatePassword encryptPassword compare d username password newPassword =
     (case first_row (select_user d username) of
        None \<Rightarrow> ((404, Message ''User not found.''), d)
      | Some user \<Rightarrow>
          if \<not> compare password (u_password user) then ((401, Message ''Invalid password''), d)
          else (let encryptedPassword = encryptPassword newPassword
                in ((200, Message ''Password updated''),
                    update_password d encryptedPassword (u_id user))))"

text \<open>
  \<^verbatim>\<open>DELETE /delete-user\<close>. Only the last statement is inside a \<^verbatim>\<open>try\<close>. When the
  \<^verbatim>\<open>SELECT\<close>, \<^verbatim>\<open>bcrypt.compare\<close> or the \<^verbatim>\<open>DELETE\<close> on the sessions rejects, nothing catches
  it and the request is never answered: the answer \<open>None\<close>. When the \<^verbatim>\<open>DELETE\<close> on the users
  is rejected the \<^verbatim>\<open>catch\<close> answers 500, after the sessions have been deleted.
\<close>

definition deleteUser ::
  "(string \<Rightarrow> string \<Rightarrow> bool) \<Rightarrow> (nat \<Rightarrow> bool) \<Rightarrow> 'n db \<Rightarrow> string \<Rightarrow> string option \<Rightarrow> string
     \<Rightarrow> 'n response option \<times> 'n db" where
  "deleteUser compare rejects d username password otp =
     (if rejects 0 then (None, d)
      else case first_row (select_user d username) of
        None \<Rightarrow> (Some (404, Message ''User not found''), d)
      | Some user \<Rightarrow>
          (case password of
             None \<Rightarrow> (None, d)
           | Some pw \<Rightarrow>
               if \<not> compare pw (u_password user)
               then (Some (401, Message ''Invalid password''), d)
               else if rejects 1 then (None, d)
               else (let d1 = delete_session d (u_id user) otp
                     in if rejects 2 then (Some (500, Message ''Failed to delete user''), d1)
                        else (Some (200, Message ''User deleted''), delete_user d1 username))))"

text \<open>\<^verbatim>\<open>DELETE /logout\<close>\<close>

definition logout :: "'n db \<Rightarrow> string \<Rightarrow> string \<Rightarrow> 'n response \<times> 'n db" where
  "logout d username otp =
     (case first_row (select_user d username) of
        None \<Rightarrow> ((404, Message ''User not found or already logged out''), d)
      | Some user \<Rightarrow> ((200, Message ''Logout successful''), delete_session d (u_id user) otp))"

text \<open>
  \<^verbatim>\<open>POST /me/account\<close>. \<^verbatim>\<open>result[0].balance\<close> throws when the account row is missing, and
  the \<^verbatim>\<open>catch\<close> answers 404.
\<close>

definition getBalance :: "'n db \<Rightarrow> string \<Rightarrow> string \<Rightarrow> 'n response" where
  "getBalance d username otp =
     (case first_row (select_user d username) of
        None \<Rightarrow> (404, Message ''User not found or already logged out'')
      | Some user \<Rightarrow>
          (let validSession = select_sessions d (u_id user) otp
           in if js_not_array validSession then (404, Message ''Failed to get balance'')
              else (case select_balance d (u_id user) of
                      [] \<Rightarrow> (404, Message ''Failed to get balance'')
                    | balance # rest \<Rightarrow> (200, Balance balance))))"

text \<open>
  \<^verbatim>\<open>POST /me/account/transaction/deposit\<close>. \<^verbatim>\<open>parseFloat\<close> turns the balance column and the
  amount of the request into numbers; \<open>amount\<close> is that number.
\<close>

definition deposit ::
  "('n::plus) db \<Rightarrow> string \<Rightarrow> string \<Rightarrow> 'n \<Rightarrow> 'n response \<times> 'n db" where
  "deposit d username otp amount =
     (case first_row (select_user d username) of
        None \<Rightarrow> ((404, Message ''User not found or already logged out''), d)
      | Some user \<Rightarrow>
          (let validSessions = select_sessions d (u_id user) otp
           in if length validSessions = 0 then ((404, Message ''Invalid session or OTP''), d)
              else (case select_balance d (u_id user) of
                      [] \<Rightarrow> ((500, Message ''Failed to update balance''), d)
                    | balance # rest \<Rightarrow>
                        (let newBalance = balance + amount
                         in ((200, Balance newBalance),
                             update_balance d newBalance (u_id user))))))"

text \<open>\<^verbatim>\<open>POST /me/account/transaction/withdraw\<close>\<close>

definition withdraw ::
  "('n::minus) db \<Rightarrow> string \<Rightarrow> string \<Rightarrow> 'n \<Rightarrow> 'n response \<times> 'n db" where
  "withdraw d username otp amount =
     (case first_row (select_user d username) of
        None \<Rightarrow> ((404, Message ''User not found or already logged out''), d)
      | Some user \<Rightarrow>
          (let validSessions = select_sessions d (u_id user) otp
           in if length validSessions = 0 then ((404, Message ''Invalid session or OTP''), d)
              else (case select_balance d (u_id user) of
                      [] \<Rightarrow> ((500, Message ''Failed to update balance''), d)
                    | balance # rest \<Rightarrow>
                        (let newBalance = balance - amount
                         in ((200, Balance newBalance),
                             update_balance d newBalance (u_id user))))))"

section \<open>Sequences of requests\<close>

text \<open>
  The requests the server answers one after another, and the passes of the session
  sweep, as events. A login event carries the rejections of the store, the clock and the
  code \<^verbatim>\<open>generateOtp\<close> drew, a deletion the rejections of the store, a sweep the clock.
\<close>

datatype 'n event =
    Register string string
  | Login "nat \<Rightarrow> bool" int string string "string option"
  | UpdatePassword string string string
  | DeleteUser "nat \<Rightarrow> bool" string "string option" string
  | Logout string string
  | GetBalance string string
  | Deposit string string 'n
  | Withdraw string string 'n
  | ClearSessions int

fun handle ::
  "(string \<Rightarrow> string) \<Rightarrow> (string \<Rightarrow> string \<Rightarrow> bool) \<Rightarrow> ('n::{zero,plus,minus}) db \<Rightarrow> 'n event
     \<Rightarrow> 'n db" where
  "handle encryptPassword compare d (Register username password) =
     snd (register encryptPassword d username password)"
| "handle encryptPassword compare d (Login rejects now otp username password) =
     snd (login compare rejects d now otp username password)"
| "handle encryptPassword compare d (UpdatePassword username password newPassword) =
     snd (updatePassword encryptPassword compare d username password newPassword)"
| "handle encryptPassword compare d (DeleteUser rejects username password otp) =
     snd (deleteUser compare rejects d username password otp)"
| "handle encryptPassword compare d (Logout username otp) = snd (logout d username otp)"
| "handle encryptPassword compare d (GetBalance username otp) = d"
| "handle encryptPassword compare d (Deposit username otp amount) =
     snd (deposit d username otp amount)"
| "handle encryptPassword compare d (Withdraw username otp amount) =
     snd (withdraw d username otp amount)"
| "handle encryptPassword compare d (ClearSessions now) = clearSessions now d"

definition one_session_per_user :: "'n db \<Rightarrow> bool" where
  "one_session_per_user d = distinct (map s_user_id (sessions d))"

section \<open>Overlapping deposits\<close>

text \<open>
  The deposit handler is an \<^verbatim>\<open>async\<close> function: at each \<^verbatim>\<open>await query(...)\<close> it hands
  control back, and the handler of another request may run until its own next
  \<^verbatim>\<open>await\<close>. A task is a deposit request between two store calls, holding the local
  variables that are still needed; a step performs the pending store call and runs the
  handler up to the next one. \<open>deposit\<close> above is the four steps in a row.
\<close>

datatype 'n deposit_task =
    Received string string 'n
  | HasUser user string 'n
  | HasSession user 'n
  | HasNewBalance user 'n
  | Responded "'n response"

fun deposit_step :: "('n::plus) db \<Rightarrow> 'n deposit_task \<Rightarrow> 'n deposit_task \<times> 'n db" where
  "deposit_step d (Received username otp amount) =
     (case first_row (select_user d username) of
        None \<Rightarrow> (Responded (404, Message ''User not found or already logged out''), d)
      | Some user \<Rightarrow> (HasUser user otp amount, d))"
| "deposit_step d (HasUser user otp amount) =
     (let validSessions = select_sessions d (u_id user) otp
      in if length validSessions = 0 then (Responded (404, Message ''Invalid session or OTP''), d)
         else (HasSession user amount, d))"
| "deposit_step d (HasSession user amount) =
     (case select_balance d (u_id user) of
        [] \<Rightarrow> (Responded (500, Message ''Failed to update balance''), d)
      | balance # rest \<Rightarrow> (HasNewBalance user (balance + amount), d))"
| "deposit_step d (HasNewBalance user newBalance) =
     (Responded (200, Balance newBalance), update_balance d newBalance (u_id user))"
| "deposit_step d (Responded r) = (Responded r, d)"

text \<open>
  A schedule names, step by step, the task that runs next. \<open>one_after_another n\<close> is the
  schedule on which each of \<open>n\<close> handlers makes its four store calls before the next
  handler starts.
\<close>

fun run_interleaved ::
  "nat list \<Rightarrow> ('n::plus) db \<times> 'n deposit_task list \<Rightarrow> 'n db \<times> 'n deposit_task list" where
  "run_interleaved [] c = c"
| "run_interleaved (i # schedule) (d, tasks) =
     (if i < length tasks
      then (case deposit_step d (tasks ! i) of
              (task, d1) \<Rightarrow> run_interleaved schedule (d1, tasks[i := task]))
      else run_interleaved schedule (d, tasks))"

definition one_after_another :: "nat \<Rightarrow> nat list" where
  "one_after_another n = concat (map (replicate 4) [0..<n])"

section \<open>Stores for the concrete runs\<close>

text \<open>
  The empty store, and one registered user, \<^verbatim>\<open>alice\<close>, with an account at balance 0:
  first without a session, then logged in with the code \<^verbatim>\<open>123456\<close>. The stand-in for
  bcrypt in the concrete runs hashes a password to itself and compares by equality.
  \<open>no_rejection\<close> is the store that accepts every statement.
\<close>

definition no_rejection :: "nat \<Rightarrow> bool" where
  "no_rejection k = False"

definition empty_store :: "double db" where
  "empty_store = \<lparr>users = [], sessions = [], accounts = [], next_id = 1\<rparr>"

definition alice_registered :: "double db" where
  "alice_registered =
     \<lparr>users = [\<lparr>u_id = 1, u_username = ''alice'', u_password = ''pw1''\<rparr>],
      sessions = [],
      accounts = [\<lparr>a_user_id = 1, a_balance = 0\<rparr>],
      next_id = 2\<rparr>"

definition alice_logged_in :: "double db" where
  "alice_logged_in =
     alice_registered\<lparr>sessions := [\<lparr>s_user_id = 1, s_otp = ''123456'', s_login_timestamp = 0\<rparr>]\<rparr>"

section \<open>Whole numbers are added exactly\<close>

lemma round_half_even_of_int: "round_half_even (of_int z) = z"
  by (simp add: round_half_even_def)

lemma floor_log2_of_int:
  assumes "0 < k"
  shows "floor_log2 (of_int k) = bitlen k - 1"
proof -
  have pos: "1 \<le> bitlen k"
    using assms bitlen_eq_zero_iff [of k] bitlen_nonneg [of k] by linarith
  have "(2::int) ^ nat (bitlen k - 1) \<le> k"
    using bitlen_bounds [OF assms] by simp
  then have "(of_int ((2::int) ^ nat (bitlen k - 1)) :: rat) \<le> of_int k"
    by (simp only: of_int_le_iff)
  then have "pow2 (bitlen k - 1) \<le> of_int k"
    using pos by (simp add: pow2_def)
  then show ?thesis
    by (simp add: floor_log2_def bitlen_def[of 1] compute_floorlog)
qed

lemma round_double_of_int:
  assumes "\<bar>k\<bar> \<le> 2 ^ 53"
  shows "round_double (of_int k) = Finite (of_int k)"
proof (cases "k = 0")
  case True
  then show ?thesis by (simp add: round_double_def)
next
  case False
  then have pos: "0 < \<bar>k\<bar>" by simp
  define e where "e = bitlen \<bar>k\<bar> - 1"
  have e: "floor_log2 \<bar>of_int k :: rat\<bar> = e"
    using floor_log2_of_int [OF pos] by (simp add: e_def)
  have lo: "2 ^ nat e \<le> \<bar>k\<bar>" and e0: "0 \<le> e"
    using bitlen_bounds [OF pos] bitlen_eq_zero_iff [of "\<bar>k\<bar>"] bitlen_nonneg [of "\<bar>k\<bar>"] pos
    by (auto simp add: e_def)
  have "\<bar>k\<bar> < 2 ^ nat 54" using assms by simp
  then have "bitlen \<bar>k\<bar> \<le> 54"
    by (simp add: bitlen_le_iff_power)
  then have e53: "e \<le> 53" by (simp add: e_def)
  have small: "\<bar>of_int k :: rat\<bar> < 2 ^ 1024"
  proof -
    have "\<bar>k\<bar> < 2 ^ 1024" using assms by (rule le_less_trans) simp
    then have "(of_int \<bar>k\<bar> :: rat) < of_int (2 ^ 1024)" by (simp only: of_int_less_iff)
    then show ?thesis by simp
  qed
  have p: "max (e - 52) (- 1074) = e - 52" using e0 by simp
  have exact: "of_int (round_half_even (of_int k / pow2 (e - 52))) * pow2 (e - 52) = (of_int k :: rat)"
  proof (cases "e \<le> 52")
    case True
    have scale: "pow2 (e - 52) = 1 / 2 ^ nat (52 - e)"
      using True by (cases "e = 52") (simp_all add: pow2_def)
    have "of_int k / pow2 (e - 52) = (of_int (k * 2 ^ nat (52 - e)) :: rat)"
      by (simp add: scale)
    then have "round_half_even (of_int k / pow2 (e - 52)) = k * 2 ^ nat (52 - e)"
      by (simp only: round_half_even_of_int)
    then show ?thesis
      by (simp add: scale)
  next
    case False
    then have "e = 53" using e53 by simp
    then have "\<bar>k\<bar> = 2 ^ 53" using lo assms by simp
    then have "k = 2 ^ 53 \<or> k = - (2 ^ 53)" by linarith
    then show ?thesis
      using \<open>e = 53\<close> by (auto simp add: pow2_def round_half_even_def)
  qed
  show ?thesis
    using False small by (simp add: round_double_def e p exact Let_def)
qed

lemma double_add_of_int:
  "\<bar>a + b\<bar> \<le> 2 ^ 53 \<Longrightarrow> Finite (of_int a) + Finite (of_int b) = Finite (of_int (a + b))"
  using round_double_of_int [of "a + b"] by simp

lemma bitlen_eq:
  "2 ^ (nat w - 1) \<le> x \<Longrightarrow> x < 2 ^ nat w \<Longrightarrow> 1 \<le> w \<Longrightarrow> bitlen x = w"
proof -
  assume a: "2 ^ (nat w - 1) \<le> x" "x < 2 ^ nat w" "1 \<le> w"
  have "bitlen x \<le> w" using a by (simp add: bitlen_le_iff_power)
  moreover have "w \<le> bitlen x" using a by (simp add: bitlen_ge_iff_power)
  ultimately show ?thesis by simp
qed

lemma round_double_rounds: "round_double 9007199254740993 = Finite 9007199254740992"
proof -
  have b: "bitlen 9007199254740993 = 54"
    by (rule bitlen_eq) simp_all
  have "floor_log2 (of_int 9007199254740993) = 53"
    using floor_log2_of_int [of 9007199254740993] b by simp
  then have e: "floor_log2 9007199254740993 = 53"
    by simp
  have fl: "\<lfloor>9007199254740993 / 2 :: rat\<rfloor> = 4503599627370496"
    by (rule floor_unique) simp_all
  have h: "round_half_even (9007199254740993 / 2) = 4503599627370496"
    by (simp add: round_half_even_def Let_def fl)
  show ?thesis
    by (simp add: round_double_def e pow2_def h)
qed

lemma round_double_small:
  "round_double 0 = Finite 0" "round_double 1 = Finite 1"
  using round_double_of_int [of 0] round_double_of_int [of 1] by simp_all


section \<open>Facts about the statements\<close>

lemma alice_row:
  "first_row (select_user alice_registered ''alice'') =
     Some \<lparr>u_id = 1, u_username = ''alice'', u_password = ''pw1''\<rparr>"
  "first_row (select_user alice_logged_in ''alice'') =
     Some \<lparr>u_id = 1, u_username = ''alice'', u_password = ''pw1''\<rparr>"
  by (simp_all add: alice_logged_in_def alice_registered_def select_user_def)

text \<open>Both stores are reached from the empty one: alice registers, then logs in.\<close>

lemma alice_stores_reached:
  "register (\<lambda>p. p) empty_store ''alice'' ''pw1'' =
     ((201, Message ''User created''), alice_registered)"
  "login (=) no_rejection alice_registered 0 ''123456'' ''alice'' (Some ''pw1'') =
     ((200, Otp ''123456''), alice_logged_in)"
  by (simp_all add: register_def login_def no_rejection_def insert_user_def insert_account_def
      select_user_def
      select_sessions_of_def insert_session_def empty_store_def alice_registered_def
      alice_logged_in_def)

lemma first_row_map: "first_row (map f rows) = map_option f (first_row rows)"
  by (cases rows) simp_all

lemma delete_sessions_of_none:
  "select_sessions_of d uid = [] \<Longrightarrow> delete_sessions_of d uid = d"
  by (simp add: select_sessions_of_def delete_sessions_of_def filter_empty_conv filter_id_conv)

lemma select_balance_update:
  "select_balance (update_balance d v uid) uid = map (\<lambda>b. v) (select_balance d uid)"
  by (simp add: select_balance_def update_balance_def filter_map comp_def)

lemma update_balance_frame:
  "users (update_balance d v uid) = users d"
  "sessions (update_balance d v uid) = sessions d"
  "select_user (update_balance d v uid) = select_user d"
  "select_sessions (update_balance d v uid) = select_sessions d"
  by (simp_all add: update_balance_def select_user_def select_sessions_def fun_eq_iff)

lemma select_user_update_password:
  "select_user (update_password d e uid) username =
     map (\<lambda>u. if u_id u = uid then u\<lparr>u_password := e\<rparr> else u) (select_user d username)"
  by (simp add: select_user_def update_password_def filter_map comp_def if_distrib cong: if_cong)

lemma update_password_frame:
  "sessions (update_password d e uid) = sessions d"
  "accounts (update_password d e uid) = accounts d"
  "next_id (update_password d e uid) = next_id d"
  "select_sessions (update_password d e uid) = select_sessions d"
  "select_balance (update_password d e uid) = select_balance d"
  by (simp_all add: update_password_def select_sessions_def select_balance_def fun_eq_iff)

lemma select_sessions_retimed:
  "select_sessions (d\<lparr>sessions := map (\<lambda>s. s\<lparr>s_login_timestamp := t s\<rparr>) (sessions d)\<rparr>) uid otp =
     map (\<lambda>s. s\<lparr>s_login_timestamp := t s\<rparr>) (select_sessions d uid otp)"
  by (simp add: select_sessions_def filter_map comp_def)

lemmas store_defs =
  select_user_def select_sessions_def select_sessions_of_def select_balance_def
  update_balance_def delete_session_def delete_sessions_of_def insert_session_def
  alice_logged_in_def alice_registered_def zero_double_def

section \<open>Facts about the handlers\<close>

lemma login_success:
  assumes "first_row (select_user d username) = Some user"
      and "compare password (u_password user)"
  shows "login compare no_rejection d now otp username (Some password) =
           ((200, Otp otp), insert_session (delete_sessions_of d (u_id user)) now (u_id user) otp)"
proof (cases "select_sessions_of d (u_id user)")
  case Nil
  then show ?thesis
    using assms by (simp add: login_def no_rejection_def delete_sessions_of_none)
next
  case (Cons s ss)
  then show ?thesis
    using assms by (simp add: login_def no_rejection_def)
qed

text \<open>
  With a string for a password and a store that accepts the statements, the two
  failures of a login are answered alike.
\<close>

lemma login_failure:
  "first_row (select_user d username) = None \<Longrightarrow>
     login compare no_rejection d now otp username password =
       ((401, Message ''Login failed.''), d)"
  "first_row (select_user d username) = Some user \<Longrightarrow> \<not> compare pw (u_password user) \<Longrightarrow>
     login compare no_rejection d now otp username (Some pw) =
       ((401, Message ''Login failed.''), d)"
  by (simp_all add: login_def no_rejection_def)

text \<open>
  Whatever the store rejects and whatever the password is, a login leaves the sessions
  as they were, or without the rows of one user, or with the rows of one user replaced
  by a single new row.
\<close>

lemma login_sessions:
  "sessions (snd (login compare rejects d now otp username password)) = sessions d \<or>
   (\<exists>uid. sessions (snd (login compare rejects d now otp username password)) =
            filter (\<lambda>s. s_user_id s \<noteq> uid) (sessions d)) \<or>
   (\<exists>uid. sessions (snd (login compare rejects d now otp username password)) =
            filter (\<lambda>s. s_user_id s \<noteq> uid) (sessions d) @
              [\<lparr>s_user_id = uid, s_otp = otp, s_login_timestamp = now\<rparr>])"
proof (cases "first_row (select_user d username)")
  case None
  then show ?thesis by (simp add: login_def)
next
  case (Some user)
  have none: "filter (\<lambda>s. s_user_id s \<noteq> u_id user) (sessions d) = sessions d"
    if "first_row (select_sessions_of d (u_id user)) = None"
  proof -
    from that have "select_sessions_of d (u_id user) = []"
      by (cases "select_sessions_of d (u_id user)") simp_all
    then show ?thesis
      by (simp add: select_sessions_of_def filter_empty_conv filter_id_conv)
  qed
  show ?thesis
  proof (cases "first_row (select_sessions_of d (u_id user))")
    case None
    then show ?thesis
      using Some none
      by (auto simp add: login_def insert_session_def split: option.splits)
  next
    case (Some existingSession)
    then show ?thesis
      using \<open>first_row (select_user d username) = Some user\<close>
      by (auto simp add: login_def insert_session_def delete_sessions_of_def Let_def
          split: option.splits)
  qed
qed

lemma deposit_accepted:
  assumes "first_row (select_user d username) = Some user"
      and "select_sessions d (u_id user) otp \<noteq> []"
      and "select_balance d (u_id user) = b # bs"
  shows "deposit d username otp amount =
           ((200, Balance (b + amount)), update_balance d (b + amount) (u_id user))"
  using assms by (simp add: deposit_def Let_def)

lemma withdraw_accepted:
  assumes "first_row (select_user d username) = Some user"
      and "select_sessions d (u_id user) otp \<noteq> []"
      and "select_balance d (u_id user) = b # bs"
  shows "withdraw d username otp amount =
           ((200, Balance (b - amount)), update_balance d (b - amount) (u_id user))"
  using assms by (simp add: withdraw_def Let_def)

text \<open>
  What a deposit followed by a withdrawal of the same amount leaves: the number
  \<open>(b + amount) - amount\<close>, computed by the two operations of the number type.
\<close>

lemma deposit_then_withdraw:
  assumes "first_row (select_user d username) = Some user"
      and "select_sessions d (u_id user) otp \<noteq> []"
      and "select_balance d (u_id user) = [b]"
  shows "select_balance (snd (withdraw (snd (deposit d username otp amount)) username otp amount))
           (u_id user) = [(b + amount) - amount]"
proof -
  let ?d1 = "update_balance d (b + amount) (u_id user)"
  have d1: "snd (deposit d username otp amount) = ?d1"
    using assms by (simp add: deposit_accepted)
  have "withdraw ?d1 username otp amount =
          ((200, Balance ((b + amount) - amount)),
           update_balance ?d1 ((b + amount) - amount) (u_id user))"
    using assms by (intro withdraw_accepted) (simp_all add: update_balance_frame select_balance_update)
  then show ?thesis
    using assms by (simp add: d1 select_balance_update)
qed

subsection \<open>Sessions\<close>

lemma sessions_register: "sessions (snd (register e d u p)) = sessions d"
  by (simp add: register_def insert_user_def insert_account_def Let_def split: option.splits)

lemma sessions_updatePassword: "sessions (snd (updatePassword e c d u p np)) = sessions d"
  by (simp add: updatePassword_def update_password_def Let_def split: option.splits)

lemma sessions_deposit: "sessions (snd (deposit d u otp a)) = sessions d"
  by (simp add: deposit_def update_balance_def Let_def split: option.splits list.splits)

lemma sessions_withdraw: "sessions (snd (withdraw d u otp a)) = sessions d"
  by (simp add: withdraw_def update_balance_def Let_def split: option.splits list.splits)

lemma one_session_login:
  assumes "one_session_per_user d"
  shows "one_session_per_user (snd (login c r d now otp u p))"
proof -
  have kept: "distinct (map s_user_id (filter (\<lambda>s. s_user_id s \<noteq> uid) (sessions d)))" for uid
    using assms unfolding one_session_per_user_def by (rule distinct_map_filter)
  then have added: "distinct (map s_user_id (filter (\<lambda>s. s_user_id s \<noteq> uid) (sessions d) @
                      [\<lparr>s_user_id = uid, s_otp = otp, s_login_timestamp = now\<rparr>]))" for uid
    by auto
  show ?thesis
    using login_sessions [of c r d now otp u p] assms kept added
    unfolding one_session_per_user_def by (elim disjE exE) simp_all
qed

lemma one_session_deleteUser:
  assumes "one_session_per_user d"
  shows "one_session_per_user (snd (deleteUser c r d u p otp))"
proof -
  have "distinct (map s_user_id (filter P (sessions d)))" for P
    using assms unfolding one_session_per_user_def by (simp add: distinct_map_filter)
  then show ?thesis
    using assms
    by (simp add: deleteUser_def delete_user_def delete_session_def one_session_per_user_def
        Let_def split: option.splits)
qed

lemma one_session_logout:
  assumes "one_session_per_user d"
  shows "one_session_per_user (snd (logout d u otp))"
  using assms
  by (simp add: logout_def delete_session_def one_session_per_user_def distinct_map_filter
      split: option.splits)

lemma one_session_clearSessions:
  assumes "one_session_per_user d"
  shows "one_session_per_user (clearSessions now d)"
  using assms
  by (simp add: clearSessions_def delete_sessions_before_def one_session_per_user_def
      distinct_map_filter)

lemma one_session_handle:
  assumes "one_session_per_user d"
  shows "one_session_per_user (handle e c d ev)"
proof (cases ev)
  case (Login r now otp u p)
  then show ?thesis using assms by (simp add: one_session_login)
next
  case (DeleteUser r u p otp)
  then show ?thesis using assms by (simp add: one_session_deleteUser)
next
  case (Logout u otp)
  then show ?thesis using assms by (simp add: one_session_logout)
next
  case (ClearSessions now)
  then show ?thesis using assms by (simp add: one_session_clearSessions)
qed (use assms in \<open>simp_all add: one_session_per_user_def sessions_register
      sessions_updatePassword sessions_deposit sessions_withdraw\<close>)

lemma one_session_events:
  "one_session_per_user d \<Longrightarrow> one_session_per_user (foldl (handle e c) d events)"
  by (induction events arbitrary: d) (simp_all add: one_session_handle)

subsection \<open>Schedules\<close>

lemma run_interleaved_append:
  "run_interleaved (xs @ ys) c = run_interleaved ys (run_interleaved xs c)"
  by (induction xs c rule: run_interleaved.induct) (auto split: prod.splits)

text \<open>The handler \<open>deposit\<close> is its four steps, run without a break.\<close>

lemma run_whole_handler:
  assumes "i < length tasks" and "tasks ! i = Received username otp amount"
  shows "run_interleaved (replicate 4 i) (d, tasks) =
           (snd (deposit d username otp amount),
            tasks[i := Responded (fst (deposit d username otp amount))])"
  using assms
  by (simp add: numeral_eq_Suc deposit_def Let_def split: option.splits list.splits)

lemma run_one_after_another:
  assumes "\<forall>i < length tasks. tasks ! i = Received username otp amount" and "n \<le> length tasks"
  shows "fst (run_interleaved (one_after_another n) (d, tasks)) =
           ((\<lambda>d. snd (deposit d username otp amount)) ^^ n) d \<and>
         length (snd (run_interleaved (one_after_another n) (d, tasks))) = length tasks \<and>
         (\<forall>i. n \<le> i \<and> i < length tasks \<longrightarrow>
            snd (run_interleaved (one_after_another n) (d, tasks)) ! i = tasks ! i)"
  using assms(2)
proof (induction n)
  case 0
  then show ?case by (simp add: one_after_another_def)
next
  case (Suc n)
  obtain d1 ts1 where r: "run_interleaved (one_after_another n) (d, tasks) = (d1, ts1)"
    by (cases "run_interleaved (one_after_another n) (d, tasks)")
  from Suc have ih: "d1 = ((\<lambda>d. snd (deposit d username otp amount)) ^^ n) d"
    "length ts1 = length tasks" "\<forall>i. n \<le> i \<and> i < length tasks \<longrightarrow> ts1 ! i = tasks ! i"
    by (simp_all add: r)
  have n: "n < length ts1" "ts1 ! n = Received username otp amount"
    using Suc.prems ih assms(1) by auto
  have "run_interleaved (one_after_another (Suc n)) (d, tasks) =
          run_interleaved (replicate 4 n) (d1, ts1)"
    using r by (simp add: one_after_another_def run_interleaved_append)
  also have "\<dots> = (snd (deposit d1 username otp amount),
                    ts1[n := Responded (fst (deposit d1 username otp amount))])"
    using n by (rule run_whole_handler)
  finally show ?case
    using ih by simp
qed

lemma deposits_in_turn:
  fixes d :: "double db"
  assumes "first_row (select_user d username) = Some user"
      and "select_sessions d (u_id user) otp \<noteq> []"
      and "select_balance d (u_id user) = [0]"
      and "n \<le> 2 ^ 53"
  shows "first_row (select_user (((\<lambda>d. snd (deposit d username otp (Finite 1))) ^^ n) d) username)
           = Some user \<and>
         select_sessions (((\<lambda>d. snd (deposit d username otp (Finite 1))) ^^ n) d) (u_id user) otp
           \<noteq> [] \<and>
         select_balance (((\<lambda>d. snd (deposit d username otp (Finite 1))) ^^ n) d) (u_id user) =
           [Finite (of_nat n)]"
  using assms(4)
proof (induction n)
  case 0
  then show ?case using assms(1-3) by (simp add: zero_double_def)
next
  case (Suc n)
  let ?d = "((\<lambda>d. snd (deposit d username otp (Finite 1))) ^^ n) d"
  have "\<bar>int n + 1\<bar> \<le> 2 ^ 53"
    using Suc.prems by (simp add: le_nat_iff flip: of_nat_Suc)
  then have "round_double (of_int (int n + 1)) = Finite (of_int (int n + 1))"
    by (rule round_double_of_int)
  then have sum: "Finite (of_nat n) + Finite 1 = Finite (of_nat (Suc n))"
    by (simp add: add.commute)
  have "deposit ?d username otp (Finite 1) =
          ((200, Balance (Finite (of_nat n) + Finite 1)),
           update_balance ?d (Finite (of_nat n) + Finite 1) (u_id user))"
    using Suc by (intro deposit_accepted) auto
  then have "deposit ?d username otp (Finite 1) =
          ((200, Balance (Finite (of_nat (Suc n)))),
           update_balance ?d (Finite (of_nat (Suc n))) (u_id user))"
    by (simp only: sum)
  then show ?case
    using Suc by (simp add: update_balance_frame select_balance_update del: of_nat_Suc)
qed

section \<open>Reading the balance\<close>

text \<open>
  C1. The claim: for an OTP that does not match the user's session row (stale, deleted or
  never issued), \<open>getBalance\<close> fails and never returns the balance. The handler does
  select the session rows, but it tests the array itself instead of its length, so the
  test never fires: alice, who has no session at all, is answered 200 with her balance
  for the never issued code \<^verbatim>\<open>000000\<close>. The deposit and withdraw handlers test
  \<^verbatim>\<open>validSessions.length === 0\<close>.
\<close>

theorem getBalance_ignores_otp:
  "select_sessions alice_registered 1 ''000000'' = [] \<and>
   getBalance alice_registered ''alice'' ''000000'' = (200, Balance 0)"
  by (simp add: getBalance_def select_sessions_def select_user_def select_balance_def
      js_not_array_def alice_registered_def)

section \<open>Deposits that overlap\<close>

text \<open>
  C2, as stated: \<open>n\<close> concurrent deposits of 1 from balance 0 leave exactly \<open>n\<close>, each
  deposit being one atomic read-modify-write. It fails: the handler reads the balance
  with one statement and writes the sum with another, and between the two the second
  handler reads the same balance. Both deposits are answered 200 with balance 1, and the
  account holds 1, not 2.
\<close>

theorem deposits_lose_update:
  "run_interleaved [0, 0, 0, 1, 1, 1, 0, 1]
     (alice_logged_in,
      [Received ''alice'' ''123456'' (Finite 1), Received ''alice'' ''123456'' (Finite 1)]) =
   (alice_logged_in\<lparr>accounts := [\<lparr>a_user_id = 1, a_balance = Finite 1\<rparr>]\<rparr>,
    [Responded (200, Balance (Finite 1)), Responded (200, Balance (Finite 1))]) \<and>
   select_balance
     (fst (run_interleaved [0, 0, 0, 1, 1, 1, 0, 1]
        (alice_logged_in,
         [Received ''alice'' ''123456'' (Finite 1), Received ''alice'' ''123456'' (Finite 1)]))) 1
     \<noteq> [Finite 2]"
  by (simp add: store_defs round_double_small)

text \<open>
  C2, amended: when the \<open>n\<close> deposits of 1 run one after another, each handler making all
  its store calls before the next one starts, the account that held 0 holds \<open>n\<close>, for
  every \<open>n\<close> up to \<open>2\<^sup>5\<^sup>3\<close>, the range on which doubles count exactly.
\<close>

theorem deposits_one_after_another:
  fixes d :: "double db"
  assumes "first_row (select_user d username) = Some user"
      and "select_sessions d (u_id user) otp \<noteq> []"
      and "select_balance d (u_id user) = [0]"
      and "n \<le> 2 ^ 53"
  shows "select_balance
           (fst (run_interleaved (one_after_another n)
              (d, replicate n (Received username otp (Finite 1)))))
           (u_id user) = [Finite (of_nat n)]"
proof -
  have "fst (run_interleaved (one_after_another n)
          (d, replicate n (Received username otp (Finite 1)))) =
          ((\<lambda>d. snd (deposit d username otp (Finite 1))) ^^ n) d"
    using run_one_after_another
      [of "replicate n (Received username otp (Finite 1))" username otp "Finite 1" n d]
    by simp
  then show ?thesis
    using deposits_in_turn [OF assms] by simp
qed

theorem deposits_one_after_another_witness:
  "first_row (select_user alice_logged_in ''alice'') =
     Some \<lparr>u_id = 1, u_username = ''alice'', u_password = ''pw1''\<rparr> \<and>
   select_sessions alice_logged_in 1 ''123456'' \<noteq> [] \<and>
   select_balance alice_logged_in 1 = [0] \<and>
   (3::nat) \<le> 2 ^ 53 \<and>
   select_balance
     (fst (run_interleaved (one_after_another 3)
        (alice_logged_in, replicate 3 (Received ''alice'' ''123456'' (Finite 1))))) 1 =
     [Finite 3]"
proof -
  let ?alice = "\<lparr>u_id = 1, u_username = ''alice'', u_password = ''pw1''\<rparr>"
  have h1: "first_row (select_user alice_logged_in ''alice'') = Some ?alice"
    by (rule alice_row)
  have h2: "select_sessions alice_logged_in (u_id ?alice) ''123456'' \<noteq> []"
    by (simp add: alice_logged_in_def select_sessions_def)
  have h3: "select_balance alice_logged_in (u_id ?alice) = [0]"
    by (simp add: alice_logged_in_def alice_registered_def select_balance_def)
  have h4: "(3::nat) \<le> 2 ^ 53"
    by simp
  show ?thesis
    using deposits_one_after_another [OF h1 h2 h3 h4] h1 h2 h3 by simp
qed

section \<open>Deleting a user\<close>

text \<open>
  C3, as stated: \<open>deleteUser\<close> succeeds only when the password verifies and the OTP
  matches the user's session, fails with 401 or 404 on any mismatch, and deletes the
  session, account and user rows all or none. It fails on each count. The handler uses
  the OTP only to pick the session rows to delete and never looks at the outcome: with
  alice's password and a code that matches no session the answer is 200, her user row is
  gone and her session row is still there. No statement of the handler deletes an
  account row: alice's account row is there after the deletion, with the right OTP as
  with the wrong one. And a request without a password is not answered at all.
\<close>

theorem deleteUser_wrong_otp_succeeds:
  "select_sessions alice_logged_in 1 ''000000'' = [] \<and>
   fst (deleteUser (=) no_rejection alice_logged_in ''alice'' (Some ''pw1'') ''000000'') =
     Some (200, Message ''User deleted'') \<and>
   users (snd (deleteUser (=) no_rejection alice_logged_in ''alice'' (Some ''pw1'') ''000000'')) =
     [] \<and>
   sessions (snd (deleteUser (=) no_rejection alice_logged_in ''alice'' (Some ''pw1'') ''000000'')) =
     [\<lparr>s_user_id = 1, s_otp = ''123456'', s_login_timestamp = 0\<rparr>] \<and>
   accounts (snd (deleteUser (=) no_rejection alice_logged_in ''alice'' (Some ''pw1'') ''000000'')) =
     [\<lparr>a_user_id = 1, a_balance = 0\<rparr>] \<and>
   fst (deleteUser (=) no_rejection alice_logged_in ''alice'' (Some ''pw1'') ''123456'') =
     Some (200, Message ''User deleted'') \<and>
   accounts (snd (deleteUser (=) no_rejection alice_logged_in ''alice'' (Some ''pw1'') ''123456'')) =
     [\<lparr>a_user_id = 1, a_balance = 0\<rparr>] \<and>
   deleteUser (=) no_rejection alice_logged_in ''alice'' None ''123456'' = (None, alice_logged_in)"
  by (simp add: store_defs deleteUser_def delete_user_def no_rejection_def Let_def)

text \<open>
  C3, amended, for a request whose password is a string and a store that accepts the
  \<^verbatim>\<open>SELECT\<close> and the \<^verbatim>\<open>DELETE\<close> on the sessions: \<open>deleteUser\<close> answers 404 for an unknown
  username and 401 when the password does not verify, and changes nothing in either
  case. When the password verifies, the OTP is not checked: the session rows of the user
  with the supplied OTP are deleted, then the rows of the user table with that username,
  and the answer is 200; when the store rejects the \<^verbatim>\<open>DELETE\<close> on the users the answer is
  500 and the session rows stay deleted. The account table is never changed, and the
  answer is the same for every OTP.
\<close>

theorem deleteUser_outcomes:
  assumes "\<not> rejects 0" and "\<not> rejects 1"
  shows "(case first_row (select_user d username) of
            None \<Rightarrow>
              deleteUser compare rejects d username (Some password) otp =
                (Some (404, Message ''User not found''), d)
          | Some user \<Rightarrow>
              if \<not> compare password (u_password user)
              then deleteUser compare rejects d username (Some password) otp =
                     (Some (401, Message ''Invalid password''), d)
              else fst (deleteUser compare rejects d username (Some password) otp) =
                     Some (if rejects 2 then (500, Message ''Failed to delete user'')
                           else (200, Message ''User deleted'')) \<and>
                   sessions (snd (deleteUser compare rejects d username (Some password) otp)) =
                     filter (\<lambda>s. \<not> (s_user_id s = u_id user \<and> s_otp s = otp)) (sessions d) \<and>
                   users (snd (deleteUser compare rejects d username (Some password) otp)) =
                     (if rejects 2 then users d
                      else filter (\<lambda>u. u_username u \<noteq> username) (users d)) \<and>
                   accounts (snd (deleteUser compare rejects d username (Some password) otp)) =
                     accounts d) \<and>
         fst (deleteUser compare rejects d username (Some password) otp) =
           fst (deleteUser compare rejects d username (Some password) otp')"
  using assms
  by (simp add: deleteUser_def delete_user_def delete_session_def Let_def split: option.splits)

theorem deleteUser_outcomes_witness:
  "\<not> no_rejection 0 \<and> \<not> no_rejection 1 \<and>
   deleteUser (=) no_rejection alice_logged_in ''bob'' (Some ''pw1'') ''123456'' =
     (Some (404, Message ''User not found''), alice_logged_in) \<and>
   deleteUser (=) no_rejection alice_logged_in ''alice'' (Some ''pw2'') ''123456'' =
     (Some (401, Message ''Invalid password''), alice_logged_in) \<and>
   fst (deleteUser (=) no_rejection alice_logged_in ''alice'' (Some ''pw1'') ''123456'') =
     Some (200, Message ''User deleted'') \<and>
   sessions (snd (deleteUser (=) no_rejection alice_logged_in ''alice'' (Some ''pw1'') ''123456'')) =
     [] \<and>
   users (snd (deleteUser (=) no_rejection alice_logged_in ''alice'' (Some ''pw1'') ''123456'')) =
     [] \<and>
   accounts (snd (deleteUser (=) no_rejection alice_logged_in ''alice'' (Some ''pw1'') ''123456'')) =
     accounts alice_logged_in \<and>
   fst (deleteUser (=) (\<lambda>k. k = 2) alice_logged_in ''alice'' (Some ''pw1'') ''123456'') =
     Some (500, Message ''Failed to delete user'') \<and>
   sessions (snd (deleteUser (=) (\<lambda>k. k = 2) alice_logged_in ''alice'' (Some ''pw1'') ''123456'')) =
     [] \<and>
   users (snd (deleteUser (=) (\<lambda>k. k = 2) alice_logged_in ''alice'' (Some ''pw1'') ''123456'')) =
     users alice_logged_in"
proof -
  have bob: "first_row (select_user alice_logged_in ''bob'') = None"
    by (simp add: store_defs)
  have n0: "\<not> no_rejection 0" and n1: "\<not> no_rejection 1" and n2: "\<not> no_rejection 2"
    by (simp_all add: no_rejection_def)
  have r0: "\<not> (\<lambda>k. k = 2) (0::nat)" and r1: "\<not> (\<lambda>k. k = 2) (1::nat)"
    by simp_all
  show ?thesis
    using deleteUser_outcomes [OF n0 n1, where d = alice_logged_in and username = "''bob''"
          and compare = "(=)" and password = "''pw1''" and otp = "''123456''"]
      deleteUser_outcomes [OF n0 n1, where d = alice_logged_in and username = "''alice''"
          and compare = "(=)" and password = "''pw2''" and otp = "''123456''"]
      deleteUser_outcomes [OF n0 n1, where d = alice_logged_in and username = "''alice''"
          and compare = "(=)" and password = "''pw1''" and otp = "''123456''"]
      deleteUser_outcomes [OF r0 r1, where d = alice_logged_in and username = "''alice''"
          and compare = "(=)" and password = "''pw1''" and otp = "''123456''"]
      n0 n1 n2
    by (simp add: alice_row bob) (simp add: store_defs)
qed

section \<open>Logging in twice\<close>

text \<open>
  C4, as stated: after a second successful login the first OTP fails validation. It
  fails when \<^verbatim>\<open>generateOtp\<close> draws the code of the first login again: the old row is
  deleted and the new row carries the same code, so the first OTP still selects a session
  and a deposit with it is accepted.
\<close>

theorem login_same_otp_again:
  "select_sessions alice_logged_in 1 ''123456'' \<noteq> [] \<and>
   fst (login (=) no_rejection alice_logged_in 5 ''123456'' ''alice'' (Some ''pw1'')) =
     (200, Otp ''123456'') \<and>
   select_sessions
     (snd (login (=) no_rejection alice_logged_in 5 ''123456'' ''alice'' (Some ''pw1'')))
     1 ''123456'' \<noteq> [] \<and>
   fst (deposit (snd (login (=) no_rejection alice_logged_in 5 ''123456'' ''alice'' (Some ''pw1'')))
          ''alice'' ''123456'' (Finite 1)) = (200, Balance (Finite 1))"
  by (simp add: store_defs login_def no_rejection_def deposit_def round_double_small Let_def)

text \<open>
  C4, amended: a successful login of a user who holds a session leaves that user exactly
  one session row, the new one; whenever the new code differs from the first OTP, the
  first OTP selects no session afterwards and deposit and withdraw reject it; and a store
  with at most one session row per user keeps that property through every sequence of
  requests and sweeps.
\<close>

theorem login_supersedes_session:
  assumes "first_row (select_user d username) = Some user"
      and "compare password (u_password user)"
      and "select_sessions d (u_id user) first_otp \<noteq> []"
      and "otp \<noteq> first_otp"
      and "one_session_per_user d"
  shows "fst (login compare no_rejection d now otp username (Some password)) = (200, Otp otp) \<and>
         select_sessions_of (snd (login compare no_rejection d now otp username (Some password)))
           (u_id user) = [\<lparr>s_user_id = u_id user, s_otp = otp, s_login_timestamp = now\<rparr>] \<and>
         select_sessions (snd (login compare no_rejection d now otp username (Some password)))
           (u_id user) first_otp = [] \<and>
         fst (deposit (snd (login compare no_rejection d now otp username (Some password)))
                username first_otp amount) = (404, Message ''Invalid session or OTP'') \<and>
         fst (withdraw (snd (login compare no_rejection d now otp username (Some password)))
                username first_otp amount') = (404, Message ''Invalid session or OTP'') \<and>
         one_session_per_user (foldl (handle encryptPassword compare) d events)"
proof -
  have "login compare no_rejection d now otp username (Some password) =
          ((200, Otp otp), insert_session (delete_sessions_of d (u_id user)) now (u_id user) otp)"
    using assms(1,2) by (rule login_success)
  moreover have "one_session_per_user (foldl (handle encryptPassword compare) d events)"
    using assms(5) by (rule one_session_events)
  moreover have "select_user (insert_session (delete_sessions_of d (u_id user)) now (u_id user) otp)
                   username = select_user d username"
    by (simp add: select_user_def insert_session_def delete_sessions_of_def)
  ultimately show ?thesis
    using assms(1,4)
    by (simp add: deposit_def withdraw_def)
      (simp add: insert_session_def delete_sessions_of_def select_sessions_of_def
        select_sessions_def filter_empty_conv)
qed

theorem login_supersedes_session_witness:
  "select_sessions alice_logged_in 1 ''123456'' \<noteq> [] \<and>
   one_session_per_user alice_logged_in \<and>
   fst (login (=) no_rejection alice_logged_in 5 ''654321'' ''alice'' (Some ''pw1'')) =
     (200, Otp ''654321'') \<and>
   select_sessions
     (snd (login (=) no_rejection alice_logged_in 5 ''654321'' ''alice'' (Some ''pw1'')))
     1 ''123456'' = [] \<and>
   one_session_per_user
     (foldl (handle (\<lambda>p. p) (=)) alice_logged_in
        [Login no_rejection 5 ''654321'' ''alice'' (Some ''pw1''),
         Login no_rejection 6 ''111111'' ''alice'' (Some ''pw1'')])"
proof -
  let ?alice = "\<lparr>u_id = 1, u_username = ''alice'', u_password = ''pw1''\<rparr>"
  have h1: "first_row (select_user alice_logged_in ''alice'') = Some ?alice"
    by (rule alice_row)
  have h2: "(=) ''pw1'' (u_password ?alice)"
    by simp
  have h3: "select_sessions alice_logged_in (u_id ?alice) ''123456'' \<noteq> []"
    by (simp add: alice_logged_in_def select_sessions_def)
  have h4: "''654321'' \<noteq> ''123456''"
    by simp
  have h5: "one_session_per_user alice_logged_in"
    by (simp add: alice_logged_in_def one_session_per_user_def)
  show ?thesis
    using login_supersedes_session [where d = alice_logged_in and username = "''alice''"
          and user = ?alice and compare = "(=)" and password = "''pw1''"
          and first_otp = "''123456''" and otp = "''654321''" and now = 5
          and encryptPassword = "\<lambda>p. p"
          and events = "[Login no_rejection 5 ''654321'' ''alice'' (Some ''pw1''),
                         Login no_rejection 6 ''111111'' ''alice'' (Some ''pw1'')]",
          OF h1 h2 h3 h4 h5]
      h3 h5
    by simp
qed

section \<open>Deposit, then withdraw\<close>

text \<open>
  C5, as stated: for every amount \<open>\<ge> 0\<close>, a deposit followed by a withdrawal of the same
  amount returns the balance to its value before the deposit. It fails where the sum is
  rounded: on balance 1 a deposit of \<open>2\<^sup>5\<^sup>3\<close> is answered with balance \<open>2\<^sup>5\<^sup>3\<close>, because
  \<open>2\<^sup>5\<^sup>3 + 1\<close> is not a double, and the withdrawal of \<open>2\<^sup>5\<^sup>3\<close> leaves 0.
\<close>

theorem round_trip_rounds:
  "select_balance (alice_logged_in\<lparr>accounts := [\<lparr>a_user_id = 1, a_balance = Finite 1\<rparr>]\<rparr>) 1 =
     [Finite 1] \<and>
   fst (deposit (alice_logged_in\<lparr>accounts := [\<lparr>a_user_id = 1, a_balance = Finite 1\<rparr>]\<rparr>)
          ''alice'' ''123456'' (Finite 9007199254740992)) =
     (200, Balance (Finite 9007199254740992)) \<and>
   fst (withdraw
          (snd (deposit (alice_logged_in\<lparr>accounts := [\<lparr>a_user_id = 1, a_balance = Finite 1\<rparr>]\<rparr>)
                  ''alice'' ''123456'' (Finite 9007199254740992)))
          ''alice'' ''123456'' (Finite 9007199254740992)) = (200, Balance (Finite 0)) \<and>
   select_balance
     (snd (withdraw
        (snd (deposit (alice_logged_in\<lparr>accounts := [\<lparr>a_user_id = 1, a_balance = Finite 1\<rparr>]\<rparr>)
                ''alice'' ''123456'' (Finite 9007199254740992)))
        ''alice'' ''123456'' (Finite 9007199254740992))) 1 = [Finite 0]"
  by (simp add: store_defs deposit_def withdraw_def minus_double_def round_double_rounds Let_def
      round_double_small)

text \<open>
  C5, amended: when the balance \<open>b\<close> is a double and the sum \<open>b + a\<close> is computed without
  rounding, an accepted deposit of \<open>a\<close> followed by the withdrawal of \<open>a\<close> leaves \<open>b\<close>.
  By \<open>round_double_of_int\<close> this covers whole numbers up to \<open>2\<^sup>5\<^sup>3\<close> in magnitude.
\<close>

theorem round_trip_when_exact:
  fixes d :: "double db"
  assumes "first_row (select_user d username) = Some user"
      and "select_sessions d (u_id user) otp \<noteq> []"
      and "select_balance d (u_id user) = [Finite b]"
      and "round_double b = Finite b"
      and "round_double (b + a) = Finite (b + a)"
  shows "fst (deposit d username otp (Finite a)) = (200, Balance (Finite (b + a))) \<and>
         fst (withdraw (snd (deposit d username otp (Finite a))) username otp (Finite a)) =
           (200, Balance (Finite b)) \<and>
         select_balance
           (snd (withdraw (snd (deposit d username otp (Finite a))) username otp (Finite a)))
           (u_id user) = [Finite b]"
proof -
  have up: "Finite b + Finite a = Finite (b + a)"
    using assms(5) by simp
  have down: "Finite (b + a) - Finite a = Finite b"
    using assms(4) by (simp add: minus_double_def)
  let ?d1 = "update_balance d (Finite (b + a)) (u_id user)"
  have dep: "deposit d username otp (Finite a) = ((200, Balance (Finite (b + a))), ?d1)"
    using deposit_accepted [OF assms(1-3), of "Finite a"] by (simp only: up)
  have "withdraw ?d1 username otp (Finite a) =
          ((200, Balance (Finite (b + a) - Finite a)),
           update_balance ?d1 (Finite (b + a) - Finite a) (u_id user))"
    using assms(1-3)
    by (intro withdraw_accepted) (simp_all add: update_balance_frame select_balance_update)
  then have wd: "withdraw ?d1 username otp (Finite a) =
                   ((200, Balance (Finite b)), update_balance ?d1 (Finite b) (u_id user))"
    by (simp only: down)
  show ?thesis
    using assms(3) by (simp add: dep wd select_balance_update)
qed

theorem round_trip_when_exact_witness:
  "select_balance alice_logged_in 1 = [Finite 0] \<and>
   round_double 0 = Finite 0 \<and>
   round_double (0 + 100) = Finite (0 + 100) \<and>
   select_balance
     (snd (withdraw (snd (deposit alice_logged_in ''alice'' ''123456'' (Finite 100)))
             ''alice'' ''123456'' (Finite 100))) 1 = [Finite 0]"
proof -
  let ?alice = "\<lparr>u_id = 1, u_username = ''alice'', u_password = ''pw1''\<rparr>"
  have h1: "first_row (select_user alice_logged_in ''alice'') = Some ?alice"
    by (rule alice_row)
  have h2: "select_sessions alice_logged_in (u_id ?alice) ''123456'' \<noteq> []"
    by (simp add: alice_logged_in_def select_sessions_def)
  have h3: "select_balance alice_logged_in (u_id ?alice) = [Finite 0]"
    by (simp add: alice_logged_in_def alice_registered_def select_balance_def zero_double_def)
  have h4: "round_double 0 = Finite 0"
    by (simp add: round_double_def)
  have h5: "round_double (0 + 100) = Finite (0 + 100)"
    using round_double_of_int [of 100] by simp
  show ?thesis
    using round_trip_when_exact [OF h1 h2 h3 h4 h5] h3 h4 h5 by simp
qed

section \<open>Registering\<close>

text \<open>
  C6, as stated: registering a username that exists fails with a 409 status. It fails:
  the rejected insert is caught by the only \<^verbatim>\<open>catch\<close> of the handler, which answers 500.
\<close>

theorem register_duplicate_is_500:
  "select_user alice_registered ''alice'' \<noteq> [] \<and>
   register (\<lambda>p. p) alice_registered ''alice'' ''pw2'' =
     ((500, Message ''Failed to create user''), alice_registered) \<and>
   fst (fst (register (\<lambda>p. p) alice_registered ''alice'' ''pw2'')) \<noteq> 409"
  by code_simp

text \<open>
  C6, amended: registering a username that exists is answered 500 and leaves the store
  as it was; registering a new username is answered 201 and adds one user row and one
  account row with balance 0 for the new id.
\<close>

theorem register_outcomes:
  "(if select_user d username \<noteq> []
    then register encryptPassword d username password =
           ((500, Message ''Failed to create user''), d)
    else fst (register encryptPassword d username password) = (201, Message ''User created'') \<and>
         users (snd (register encryptPassword d username password)) =
           users d @ [\<lparr>u_id = next_id d, u_username = username,
                       u_password = encryptPassword password\<rparr>] \<and>
         accounts (snd (register encryptPassword d username password)) =
           accounts d @ [\<lparr>a_user_id = next_id d, a_balance = 0\<rparr>] \<and>
         sessions (snd (register encryptPassword d username password)) = sessions d)"
proof (cases "select_user d username = []")
  case True
  then have "filter (\<lambda>u. u_username u = username) (users d) = []"
    by (simp add: select_user_def)
  then show ?thesis
    using True
    by (simp add: register_def insert_user_def insert_account_def select_user_def Let_def)
next
  case False
  then show ?thesis
    by (simp add: register_def insert_user_def)
qed

theorem register_outcomes_witness:
  "register (\<lambda>p. p) alice_registered ''alice'' ''pw2'' =
     ((500, Message ''Failed to create user''), alice_registered) \<and>
   fst (register (\<lambda>p. p) alice_registered ''bob'' ''pw2'') = (201, Message ''User created'') \<and>
   users (snd (register (\<lambda>p. p) alice_registered ''bob'' ''pw2'')) =
     users alice_registered @ [\<lparr>u_id = 2, u_username = ''bob'', u_password = ''pw2''\<rparr>] \<and>
   accounts (snd (register (\<lambda>p. p) alice_registered ''bob'' ''pw2'')) =
     accounts alice_registered @ [\<lparr>a_user_id = 2, a_balance = 0\<rparr>]"
proof -
  have alice: "select_user alice_registered ''alice'' \<noteq> []"
    and bob: "select_user alice_registered ''bob'' = []"
    and fresh: "next_id alice_registered = 2"
    by (simp_all add: alice_registered_def select_user_def)
  show ?thesis
    using register_outcomes [where d = alice_registered and username = "''alice''"
          and encryptPassword = "\<lambda>p. p" and password = "''pw2''"]
      register_outcomes [where d = alice_registered and username = "''bob''"
          and encryptPassword = "\<lambda>p. p" and password = "''pw2''"]
    by (simp add: alice bob fresh)
qed

section \<open>Failed logins\<close>

text \<open>
  C7. The claim: a failed login is answered alike whether the username is unknown or
  the comparison of the password fails, so that the caller cannot tell the two causes
  apart. The handler answers both of its failure branches with the same status 401 and
  the same body (\<open>login_failure\<close>), but the comparison comes after the lookup of the user
  and inside the \<^verbatim>\<open>try\<close>: for a request without a password \<^verbatim>\<open>bcrypt.compare\<close> rejects and
  the \<^verbatim>\<open>catch\<close> answers 500 when the username is known, while an unknown username is
  answered 401 before any comparison. The two answers tell the caller that alice is
  registered and bob is not.
\<close>

theorem login_without_password_tells_users_apart:
  "select_user alice_registered ''alice'' \<noteq> [] \<and>
   select_user alice_registered ''bob'' = [] \<and>
   login (=) no_rejection alice_registered 7 ''111111'' ''alice'' None =
     ((500, Message ''An error occurred during login.''), alice_registered) \<and>
   login (=) no_rejection alice_registered 7 ''111111'' ''bob'' None =
     ((401, Message ''Login failed.''), alice_registered) \<and>
   fst (login (=) no_rejection alice_registered 7 ''111111'' ''alice'' None) \<noteq>
     fst (login (=) no_rejection alice_registered 7 ''111111'' ''bob'' None)"
  by (simp add: store_defs login_def no_rejection_def)

section \<open>Logging out\<close>




section \<open>The session sweep\<close>

text \<open>
  C9. A session row older than ten minutes is gone after a pass of \<open>clearSessions\<close>,
  which keeps exactly the rows that are not older. Validation does not read the
  timestamp: before the pass the old row still selects a session for its user and code,
  and the answers of deposit and withdraw are the same whatever the timestamps of the
  session rows.
\<close>

theorem clearSessions_removes_expired:
  assumes "s \<in> set (sessions d)"
      and "now - s_login_timestamp s > 10 * 60 * 1000"
  shows "s \<notin> set (sessions (clearSessions now d)) \<and>
         sessions (clearSessions now d) =
           filter (\<lambda>s. now - s_login_timestamp s \<le> 10 * 60 * 1000) (sessions d) \<and>
         select_sessions d (s_user_id s) (s_otp s) \<noteq> [] \<and>
         fst (deposit (d\<lparr>sessions := map (\<lambda>s. s\<lparr>s_login_timestamp := t s\<rparr>) (sessions d)\<rparr>)
                username otp amount) = fst (deposit d username otp amount) \<and>
         fst (withdraw (d\<lparr>sessions := map (\<lambda>s. s\<lparr>s_login_timestamp := t s\<rparr>) (sessions d)\<rparr>)
                username otp amount') = fst (withdraw d username otp amount')"
proof -
  have kept: "sessions (clearSessions now d) =
                filter (\<lambda>s. now - s_login_timestamp s \<le> 10 * 60 * 1000) (sessions d)"
    by (auto simp add: clearSessions_def delete_sessions_before_def intro: filter_cong)
  have reaped: "s \<notin> set (sessions (clearSessions now d))"
    using assms(2) by (simp add: kept)
  have valid: "select_sessions d (s_user_id s) (s_otp s) \<noteq> []"
    using assms(1) by (auto simp add: select_sessions_def filter_empty_conv)
  have dep: "fst (deposit (d\<lparr>sessions := map (\<lambda>s. s\<lparr>s_login_timestamp := t s\<rparr>) (sessions d)\<rparr>)
                username otp amount) = fst (deposit d username otp amount)"
    by (simp add: deposit_def select_sessions_retimed select_user_def select_balance_def Let_def
        split: option.splits list.splits)
  have wd: "fst (withdraw (d\<lparr>sessions := map (\<lambda>s. s\<lparr>s_login_timestamp := t s\<rparr>) (sessions d)\<rparr>)
                username otp amount') = fst (withdraw d username otp amount')"
    by (simp add: withdraw_def select_sessions_retimed select_user_def select_balance_def Let_def
        split: option.splits list.splits)
  show ?thesis
    using kept reaped valid dep wd by simp
qed

theorem clearSessions_removes_expired_witness:
  "\<lparr>s_user_id = 1, s_otp = ''123456'', s_login_timestamp = 0\<rparr> \<in> set (sessions alice_logged_in) \<and>
   (600001::int) - 0 > 10 * 60 * 1000 \<and>
   \<lparr>s_user_id = 1, s_otp = ''123456'', s_login_timestamp = 0\<rparr>
     \<notin> set (sessions (clearSessions 600001 alice_logged_in)) \<and>
   select_sessions alice_logged_in 1 ''123456'' \<noteq> []"
proof -
  let ?s = "\<lparr>s_user_id = 1, s_otp = ''123456'', s_login_timestamp = 0\<rparr>"
  have h1: "?s \<in> set (sessions alice_logged_in)"
    by (simp add: alice_logged_in_def)
  have h2: "600001 - s_login_timestamp ?s > 10 * 60 * 1000"
    by simp
  show ?thesis
    using clearSessions_removes_expired [OF h1 h2] h1 by simp
qed

section \<open>Changing the password\<close>

text \<open>
  C10. A successful \<open>updatePassword\<close> leaves the session and account tables as they
  were and changes, in the user table, the password of the rows with the user's id only.
  Every OTP selects the same sessions as before, and deposit, withdraw and the balance
  read are answered as they would have been before the change.
\<close>

theorem updatePassword_frame:
  assumes "fst (fst (updatePassword encryptPassword compare d username password newPassword)) = 200"
      and "first_row (select_user d username) = Some user"
  shows "sessions (snd (updatePassword encryptPassword compare d username password newPassword)) =
           sessions d \<and>
         accounts (snd (updatePassword encryptPassword compare d username password newPassword)) =
           accounts d \<and>
         users (snd (updatePassword encryptPassword compare d username password newPassword)) =
           map (\<lambda>u. if u_id u = u_id user then u\<lparr>u_password := encryptPassword newPassword\<rparr> else u)
             (users d) \<and>
         select_sessions (snd (updatePassword encryptPassword compare d username password newPassword))
           uid otp = select_sessions d uid otp \<and>
         fst (deposit (snd (updatePassword encryptPassword compare d username password newPassword))
                name otp amount) = fst (deposit d name otp amount) \<and>
         fst (withdraw (snd (updatePassword encryptPassword compare d username password newPassword))
                name otp amount') = fst (withdraw d name otp amount') \<and>
         getBalance (snd (updatePassword encryptPassword compare d username password newPassword))
           name otp = getBalance d name otp"
proof -
  let ?e = "encryptPassword newPassword"
  have ok: "compare password (u_password user)"
    using assms by (simp add: updatePassword_def split: if_splits)
  then have d': "snd (updatePassword encryptPassword compare d username password newPassword) =
                   update_password d ?e (u_id user)"
    using assms(2) by (simp add: updatePassword_def)
  have row: "first_row (select_user (update_password d ?e (u_id user)) name) =
               map_option (\<lambda>u. if u_id u = u_id user then u\<lparr>u_password := ?e\<rparr> else u)
                 (first_row (select_user d name))"
    by (simp add: select_user_update_password first_row_map)
  have dep: "fst (deposit (update_password d ?e (u_id user)) name otp amount) =
               fst (deposit d name otp amount)"
    by (cases "first_row (select_user d name)")
      (simp_all add: deposit_def row update_password_frame Let_def split: list.splits)
  have wd: "fst (withdraw (update_password d ?e (u_id user)) name otp amount') =
              fst (withdraw d name otp amount')"
    by (cases "first_row (select_user d name)")
      (simp_all add: withdraw_def row update_password_frame Let_def split: list.splits)
  have gb: "getBalance (update_password d ?e (u_id user)) name otp = getBalance d name otp"
    by (cases "first_row (select_user d name)")
      (simp_all add: getBalance_def row update_password_frame Let_def split: list.splits)
  show ?thesis
    unfolding d' using dep wd gb
    by (simp add: update_password_frame) (simp add: update_password_def)
qed

theorem updatePassword_frame_witness:
  "fst (fst (updatePassword (\<lambda>p. p) (=) alice_logged_in ''alice'' ''pw1'' ''pw2'')) = 200 \<and>
   sessions (snd (updatePassword (\<lambda>p. p) (=) alice_logged_in ''alice'' ''pw1'' ''pw2'')) =
     sessions alice_logged_in \<and>
   accounts (snd (updatePassword (\<lambda>p. p) (=) alice_logged_in ''alice'' ''pw1'' ''pw2'')) =
     accounts alice_logged_in \<and>
   select_sessions (snd (updatePassword (\<lambda>p. p) (=) alice_logged_in ''alice'' ''pw1'' ''pw2''))
     1 ''123456'' = select_sessions alice_logged_in 1 ''123456'' \<and>
   select_sessions alice_logged_in 1 ''123456'' \<noteq> []"
proof -
  let ?alice = "\<lparr>u_id = 1, u_username = ''alice'', u_password = ''pw1''\<rparr>"
  have h2: "first_row (select_user alice_logged_in ''alice'') = Some ?alice"
    by (rule alice_row)
  have h1: "fst (fst (updatePassword (\<lambda>p. p) (=) alice_logged_in ''alice'' ''pw1'' ''pw2'')) = 200"
    by (simp add: updatePassword_def h2)
  have h3: "select_sessions alice_logged_in 1 ''123456'' \<noteq> []"
    by (simp add: alice_logged_in_def select_sessions_def)
  show ?thesis
    using updatePassword_frame [OF h1 h2, of 1 "''123456''"] h1 h3 by simp
qed

end
